theory Spec2Isabelle
  imports Complex_Main "HOL-Library.Sublist" "HOL-Library.Multiset"
begin

section \<open>Strings\<close>

text \<open>
  Python strings are modelled as \<^typ>\<open>string\<close>. \<open>str.lower\<close> is modelled on the ASCII
  letters; every other character is left as it is.
\<close>

definition char_lower :: "char \<Rightarrow> char" where
  "char_lower c =
     (case map_of (zip ''ABCDEFGHIJKLMNOPQRSTUVWXYZ'' ''abcdefghijklmnopqrstuvwxyz'') c of
        Some d \<Rightarrow> d
      | None \<Rightarrow> c)"

definition lower :: "string \<Rightarrow> string" where
  "lower s = map char_lower s"

text \<open>The operator \<open>k in s\<close> on two strings: \<open>k\<close> occurs in \<open>s\<close> as a contiguous run.\<close>

fun str_contains :: "string \<Rightarrow> string \<Rightarrow> bool" where
  "str_contains k [] = (k = [])"
| "str_contains k (c # s) = (prefix k (c # s) \<or> str_contains k s)"

section \<open>Column role resolver\<close>

text \<open>
  \<^verbatim>\<open>
  def find_col(keys):
      for c in df.columns:
          for k in keys:
              if k in c.lower():
                  return c
      return None
  \<close>
  The global \<open>df.columns\<close> is the first argument. The inner loop is \<open>match_keys\<close>: it
  tells whether the \<open>return c\<close> is reached for the column \<open>c\<close>.
\<close>

fun match_keys :: "string \<Rightarrow> string list \<Rightarrow> bool" where
  "match_keys c [] = False"
| "match_keys c (k # ks) = (if str_contains k (lower c) then True else match_keys c ks)"

fun find_col :: "string list \<Rightarrow> string list \<Rightarrow> string option" where
  "find_col [] keys = None"
| "find_col (c # cs) keys = (if match_keys c keys then Some c else find_col cs keys)"

text \<open>
  The resolver as the specification words it: the first column, in table order, whose
  lowercased name contains one of the keywords.
\<close>

definition col_matches :: "string list \<Rightarrow> string \<Rightarrow> bool" where
  "col_matches keys c = (\<exists>k \<in> set keys. sublist k (lower c))"

definition find_column_spec :: "string list \<Rightarrow> string list \<Rightarrow> string option" where
  "find_column_spec cols keys = find (col_matches keys) cols"

section \<open>Tables\<close>

text \<open>
  A data frame is an ordered list of column names and an ordered list of rows; a row maps a
  column name to the value of its cell. A cell holds a number, a text or the missing value
  (NaN). Numbers are modelled as \<^typ>\<open>real\<close>: sums, quotients and roundings are exact,
  and the rounding error, infinities and overflow of 64-bit floating point are outside the
  model.
\<close>

datatype cell = Num real | Str string | Null

type_synonym row = "string \<rightharpoonup> cell"

record table =
  columns :: "string list"
  rows :: "row list"

datatype error = KeyError string | TypeError | Stopped

definition cell_of :: "row \<Rightarrow> string \<Rightarrow> cell" where
  "cell_of r c = (case r c of Some v \<Rightarrow> v | None \<Rightarrow> Null)"

text \<open>Sequencing of steps that may raise: the first error ends the run.\<close>

fun and_then :: "error + 'a \<Rightarrow> ('a \<Rightarrow> error + 'b) \<Rightarrow> error + 'b" where
  "and_then (Inl e) f = Inl e"
| "and_then (Inr x) f = f x"

fun map_err :: "('a \<Rightarrow> error + 'b) \<Rightarrow> 'a list \<Rightarrow> error + 'b list" where
  "map_err f [] = Inr []"
| "map_err f (x # xs) =
     (case f x of
        Inl e \<Rightarrow> Inl e
      | Inr y \<Rightarrow> (case map_err f xs of Inl e \<Rightarrow> Inl e | Inr ys \<Rightarrow> Inr (y # ys)))"

text \<open>\<open>df[col]\<close>: the cells of one column, in row order; KeyError when there is no such column.\<close>

definition getitem :: "table \<Rightarrow> string \<Rightarrow> error + cell list" where
  "getitem df col =
     (if col \<in> set (columns df) then Inr (map (\<lambda>r. cell_of r col) (rows df))
      else Inl (KeyError col))"

text \<open>\<open>df[mask]\<close>: the rows whose entry of the boolean series is True, columns unchanged.\<close>

definition mask_rows :: "table \<Rightarrow> bool list \<Rightarrow> table" where
  "mask_rows df m = df\<lparr>rows := map fst (filter snd (zip (rows df) m))\<rparr>"

section \<open>Data loader\<close>

text \<open>
  \<^verbatim>\<open>
  def load_data(path):
      df = pd.read_excel(path, engine="pyxlsb")
      df.columns = [str(c).strip() for c in df.columns]
      numeric_cols = [ ... ]
      for col in numeric_cols:
          if col in df.columns:
              df[col] = pd.to_numeric(df[col], errors="coerce").fillna(0)
      return df
  \<close>
  The model starts from the table that \<open>read_excel\<close> returns, with header names that are
  texts already. \<open>str.strip\<close> removes the ASCII white space at both ends. Should two
  headers become equal by stripping, the row keeps the cell of the first of them.
  The text-to-number parser of \<open>to_numeric\<close> belongs to the library and is a parameter:
  \<open>parse s = None\<close> when \<open>s\<close> is not a number.
\<close>

definition is_space :: "char \<Rightarrow> bool" where
  "is_space c =
     (c \<in> set [CHR 0x09, CHR 0x0A, CHR 0x0B, CHR 0x0C, CHR 0x0D,
                CHR 0x1C, CHR 0x1D, CHR 0x1E, CHR 0x1F, CHR 0x20])"

definition strip :: "string \<Rightarrow> string" where
  "strip s = rev (dropWhile is_space (rev (dropWhile is_space s)))"

definition rename_row :: "string list \<Rightarrow> row \<Rightarrow> row" where
  "rename_row cols r = map_of (map (\<lambda>c. (strip c, cell_of r c)) cols)"

definition numeric_cols :: "string list" where
  "numeric_cols =
     [''No of Loans'', ''Dailed Customers'', ''Connect'', ''Nos. of PTP'',
      ''Nos of Loans Paid'', ''Intensity'', ''Collection Amount'',
      ''Principal Outstanding'', ''POS 100%'', ''Total Amt 100%'',
      ''Total Default Amount'']"

fun to_numeric :: "(string \<Rightarrow> real option) \<Rightarrow> cell \<Rightarrow> cell" where
  "to_numeric parse (Num x) = Num x"
| "to_numeric parse (Str s) = (case parse s of Some x \<Rightarrow> Num x | None \<Rightarrow> Null)"
| "to_numeric parse Null = Null"

fun fillna0 :: "cell \<Rightarrow> cell" where
  "fillna0 Null = Num 0"
| "fillna0 c = c"

definition coerce_col :: "(string \<Rightarrow> real option) \<Rightarrow> string \<Rightarrow> table \<Rightarrow> table" where
  "coerce_col parse col df =
     df\<lparr>rows := map (\<lambda>r. r(col \<mapsto> fillna0 (to_numeric parse (cell_of r col)))) (rows df)\<rparr>"

fun coerce_cols :: "(string \<Rightarrow> real option) \<Rightarrow> string list \<Rightarrow> table \<Rightarrow> table" where
  "coerce_cols parse [] df = df"
| "coerce_cols parse (col # cols) df =
     coerce_cols parse cols
       (if col \<in> set (columns df) then coerce_col parse col df else df)"

definition normalize_columns :: "table \<Rightarrow> table" where
  "normalize_columns df =
     \<lparr>columns = map strip (columns df), rows = map (rename_row (columns df)) (rows df)\<rparr>"

definition load_data :: "(string \<Rightarrow> real option) \<Rightarrow> table \<Rightarrow> table" where
  "load_data parse raw = coerce_cols parse numeric_cols (normalize_columns raw)"

section \<open>Filters\<close>

text \<open>
  \<^verbatim>\<open>
  filtered_df = df.copy()
  if state != "All":
      filtered_df = filtered_df[filtered_df[state_col].astype(str) == state]
  if dpd != "All":
      filtered_df = filtered_df[filtered_df[dpd_col].astype(str) == dpd]
  if connect_filter == "Connected":
      filtered_df = filtered_df[filtered_df["Connect"] > 0]
  elif connect_filter == "Not Connected":
      filtered_df = filtered_df[filtered_df["Connect"] == 0]
  \<close>
  \<open>astype(str)\<close> leaves a text as it is and prints the missing value as \<open>nan\<close>; how it
  prints a number is the library's matter and a parameter (\<open>shw\<close>). Comparing a text with
  \<open>> 0\<close> raises TypeError; \<open>== 0\<close> on a text or on the missing value is False.
\<close>

fun astype_str :: "(real \<Rightarrow> string) \<Rightarrow> cell \<Rightarrow> string" where
  "astype_str shw (Str s) = s"
| "astype_str shw (Num x) = shw x"
| "astype_str shw Null = ''nan''"

fun gt_zero :: "cell \<Rightarrow> error + bool" where
  "gt_zero (Num x) = Inr (0 < x)"
| "gt_zero Null = Inr False"
| "gt_zero (Str s) = Inl TypeError"

fun eq_zero :: "cell \<Rightarrow> bool" where
  "eq_zero (Num x) = (x = 0)"
| "eq_zero c = False"

definition filter_text :: "(real \<Rightarrow> string) \<Rightarrow> string \<Rightarrow> string \<Rightarrow> table \<Rightarrow> error + table" where
  "filter_text shw col sel df =
     (if sel \<noteq> ''All''
      then and_then (getitem df col)
             (\<lambda>s. Inr (mask_rows df (map (\<lambda>c. astype_str shw c = sel) s)))
      else Inr df)"

definition filter_connect :: "string \<Rightarrow> table \<Rightarrow> error + table" where
  "filter_connect connect_filter df =
     (if connect_filter = ''Connected''
      then and_then (getitem df ''Connect'')
             (\<lambda>s. and_then (map_err gt_zero s) (\<lambda>m. Inr (mask_rows df m)))
      else if connect_filter = ''Not Connected''
      then and_then (getitem df ''Connect'') (\<lambda>s. Inr (mask_rows df (map eq_zero s)))
      else Inr df)"

definition apply_filters ::
  "(real \<Rightarrow> string) \<Rightarrow> table \<Rightarrow> string \<Rightarrow> string \<Rightarrow> string \<Rightarrow> string \<Rightarrow> string \<Rightarrow> error + table"
where
  "apply_filters shw df state_col dpd_col state dpd connect_filter =
     and_then (and_then (filter_text shw state_col state df) (filter_text shw dpd_col dpd))
       (filter_connect connect_filter)"

section \<open>KPI helpers\<close>

text \<open>
  \<^verbatim>\<open>
  def total(col):
      return int(filtered_df[col].sum()) if col in filtered_df.columns else 0
  def crore(col):
      return round(filtered_df[col].sum() / 1e7, 2) if col in filtered_df.columns else 0
  \<close>
  \<open>Series.sum\<close> skips the missing value; a text in the column makes the helper raise.
  \<open>int\<close> truncates towards zero; \<open>round(x, 2)\<close> rounds to two decimals, a tie going to
  the even neighbour.
\<close>

fun sum_cells :: "cell list \<Rightarrow> error + real" where
  "sum_cells [] = Inr 0"
| "sum_cells (Num x # cs) = and_then (sum_cells cs) (\<lambda>s. Inr (x + s))"
| "sum_cells (Null # cs) = sum_cells cs"
| "sum_cells (Str s # cs) = Inl TypeError"

definition py_int :: "real \<Rightarrow> int" where
  "py_int x = (if 0 \<le> x then \<lfloor>x\<rfloor> else \<lceil>x\<rceil>)"

definition round_half_even :: "real \<Rightarrow> int" where
  "round_half_even x =
     (let f = \<lfloor>x\<rfloor>; d = x - of_int f
      in if d < 1 / 2 then f else if 1 / 2 < d then f + 1 else if even f then f else f + 1)"

definition round2 :: "real \<Rightarrow> real" where
  "round2 x = of_int (round_half_even (x * 100)) / 100"

definition total :: "table \<Rightarrow> string \<Rightarrow> error + int" where
  "total filtered_df col =
     (if col \<in> set (columns filtered_df)
      then and_then (getitem filtered_df col)
             (\<lambda>s. and_then (sum_cells s) (\<lambda>x. Inr (py_int x)))
      else Inr 0)"

definition crore :: "table \<Rightarrow> string \<Rightarrow> error + real" where
  "crore filtered_df col =
     (if col \<in> set (columns filtered_df)
      then and_then (getitem filtered_df col)
             (\<lambda>s. and_then (sum_cells s) (\<lambda>x. Inr (round2 (x / 10000000))))
      else Inr 0)"

text \<open>The columns the KPI section passes to \<open>total\<close> and to \<open>crore\<close>, in display order.\<close>

definition total_cols :: "string list" where
  "total_cols =
     [''No of Loans'', ''Dailed Customers'', ''Connect'', ''Nos. of PTP'', ''Intensity'']"

definition crore_cols :: "string list" where
  "crore_cols = [''Collection Amount'', ''Principal Outstanding'', ''Total Default Amount'']"

section \<open>Aggregates\<close>

text \<open>
  \<^verbatim>\<open>
  state_summary = filtered_df.groupby(state_col)[
      ["Collection Amount", "Principal Outstanding"]
  ].sum().reset_index()
  state_summary["Collection Cr"] = state_summary["Collection Amount"] / 1e7
  state_summary["POS Cr"] = state_summary["Principal Outstanding"] / 1e7

  dpd_summary = filtered_df.groupby(dpd_col)["Collection Amount"].sum().reset_index()
  dpd_summary["Collection Cr"] = dpd_summary["Collection Amount"] / 1e7
  \<close>
  Selecting a column the frame does not have raises KeyError (the model names the first
  missing column). A group is made for each key that is not the missing value; the order
  in which the library lists the groups is not modelled.
\<close>

definition group_keys :: "table \<Rightarrow> string \<Rightarrow> cell list" where
  "group_keys df key = remdups (filter (\<lambda>k. k \<noteq> Null) (map (\<lambda>r. cell_of r key) (rows df)))"

definition group_sum :: "table \<Rightarrow> string \<Rightarrow> cell \<Rightarrow> string \<Rightarrow> error + real" where
  "group_sum df key k col =
     sum_cells (map (\<lambda>r. cell_of r col) (filter (\<lambda>r. cell_of r key = k) (rows df)))"

definition state_summary ::
  "table \<Rightarrow> string \<Rightarrow> error + (cell \<times> real \<times> real \<times> real \<times> real) list"
where
  "state_summary filtered_df state_col =
     (if state_col \<notin> set (columns filtered_df) then Inl (KeyError state_col)
      else if ''Collection Amount'' \<notin> set (columns filtered_df)
      then Inl (KeyError ''Collection Amount'')
      else if ''Principal Outstanding'' \<notin> set (columns filtered_df)
      then Inl (KeyError ''Principal Outstanding'')
      else map_err
             (\<lambda>k. and_then (group_sum filtered_df state_col k ''Collection Amount'')
                (\<lambda>a. and_then (group_sum filtered_df state_col k ''Principal Outstanding'')
                   (\<lambda>p. Inr (k, a, p, a / 10000000, p / 10000000))))
             (group_keys filtered_df state_col))"

definition dpd_summary :: "table \<Rightarrow> string \<Rightarrow> error + (cell \<times> real \<times> real) list" where
  "dpd_summary filtered_df dpd_col =
     (if dpd_col \<notin> set (columns filtered_df) then Inl (KeyError dpd_col)
      else if ''Collection Amount'' \<notin> set (columns filtered_df)
      then Inl (KeyError ''Collection Amount'')
      else map_err
             (\<lambda>k. and_then (group_sum filtered_df dpd_col k ''Collection Amount'')
                (\<lambda>a. Inr (k, a, a / 10000000)))
             (group_keys filtered_df dpd_col))"

section \<open>The script\<close>

text \<open>
  One run of the script, from the table read from the file and the three selections of
  the sidebar to what is shown. \<open>st.stop()\<close> after an unresolved region or bucket column
  is the result \<open>Inl Stopped\<close>; an exception raised on the way ends the run with its error.
\<close>

record dashboard =
  filtered :: table
  totals :: "int list"
  crores :: "real list"
  state_chart :: "(cell \<times> real \<times> real \<times> real \<times> real) list"
  dpd_chart :: "(cell \<times> real \<times> real) list"

definition run_dashboard ::
  "(string \<Rightarrow> real option) \<Rightarrow> (real \<Rightarrow> string) \<Rightarrow> table \<Rightarrow> string \<Rightarrow> string \<Rightarrow> string
     \<Rightarrow> error + dashboard"
where
  "run_dashboard parse shw raw state dpd connect_filter =
     (let df = load_data parse raw in
      case find_col (columns df) [''state''] of
        None \<Rightarrow> Inl Stopped
      | Some state_col \<Rightarrow>
          (case find_col (columns df) [''dpd''] of
             None \<Rightarrow> Inl Stopped
           | Some dpd_col \<Rightarrow>
               and_then (apply_filters shw df state_col dpd_col state dpd connect_filter)
                 (\<lambda>filtered_df.
                    and_then (map_err (total filtered_df) total_cols)
                      (\<lambda>ts. and_then (map_err (crore filtered_df) crore_cols)
                         (\<lambda>cs. and_then (state_summary filtered_df state_col)
                            (\<lambda>ss. and_then (dpd_summary filtered_df dpd_col)
                               (\<lambda>ds. Inr \<lparr>filtered = filtered_df, totals = ts, crores = cs,
                                            state_chart = ss, dpd_chart = ds\<rparr>)))))))"

section \<open>Notions used to state the results\<close>

text \<open>The number in a numeric cell.\<close>

fun num_of :: "cell \<Rightarrow> real" where
  "num_of (Num x) = x"
| "num_of c = 0"

text \<open>The rows the two text filters and the connect filter keep.\<close>

definition keep_text :: "(real \<Rightarrow> string) \<Rightarrow> string \<Rightarrow> string \<Rightarrow> row \<Rightarrow> bool" where
  "keep_text shw col sel r = (sel = ''All'' \<or> astype_str shw (cell_of r col) = sel)"

definition keep_connect :: "string \<Rightarrow> row \<Rightarrow> bool" where
  "keep_connect connect_filter r =
     (if connect_filter = ''Connected'' then 0 < num_of (cell_of r ''Connect'')
      else if connect_filter = ''Not Connected'' then eq_zero (cell_of r ''Connect'')
      else True)"

text \<open>Every cell of a column is a number.\<close>

definition numeric_column :: "table \<Rightarrow> string \<Rightarrow> bool" where
  "numeric_column df col = list_all (\<lambda>r. case r col of Some (Num x) \<Rightarrow> True | _ \<Rightarrow> False) (rows df)"

text \<open>Running a list of filter steps one after the other, from left to right.\<close>

definition run_steps :: "(table \<Rightarrow> error + table) list \<Rightarrow> table \<Rightarrow> error + table" where
  "run_steps steps df = fold (\<lambda>step acc. and_then acc step) steps (Inr df)"

section \<open>Example inputs\<close>

text \<open>
  The two-row table of the specification's scenario, under headers the resolver accepts,
  and two tables that lack optional columns. \<open>parse_example\<close> and \<open>shw_example\<close> stand
  for the library's parser and printer of numbers on the inputs of the examples.
\<close>

definition parse_example :: "string \<Rightarrow> real option" where
  "parse_example s = (if s = ''150'' then Some 150 else None)"

definition shw_example :: "real \<Rightarrow> string" where
  "shw_example x = ''?''"

definition scenario_raw :: table where
  "scenario_raw =
     \<lparr>columns = [''State'', ''DPD Bucket'', ''Connect'', ''Collection Amount'',
                 ''Principal Outstanding''],
      rows = [[''State'' \<mapsto> Str ''MH'', ''DPD Bucket'' \<mapsto> Str ''0-30'', ''Connect'' \<mapsto> Num 1,
               ''Collection Amount'' \<mapsto> Num 10000000, ''Principal Outstanding'' \<mapsto> Str ''150''],
              [''State'' \<mapsto> Str ''MH'', ''DPD Bucket'' \<mapsto> Str ''31-60'', ''Connect'' \<mapsto> Num 0,
               ''Collection Amount'' \<mapsto> Num 20000000, ''Principal Outstanding'' \<mapsto> Str ''n/a'']]\<rparr>"

definition no_connect_raw :: table where
  "no_connect_raw =
     \<lparr>columns = [''State'', ''DPD Bucket'', ''Collection Amount'', ''Principal Outstanding''],
      rows = [[''State'' \<mapsto> Str ''MH'', ''DPD Bucket'' \<mapsto> Str ''0-30'',
               ''Collection Amount'' \<mapsto> Num 10000000, ''Principal Outstanding'' \<mapsto> Num 5]]\<rparr>"

definition no_amounts_raw :: table where
  "no_amounts_raw =
     \<lparr>columns = [''State'', ''DPD Bucket'', ''Connect''],
      rows = [[''State'' \<mapsto> Str ''MH'', ''DPD Bucket'' \<mapsto> Str ''0-30'', ''Connect'' \<mapsto> Num 1]]\<rparr>"

section \<open>Lemmas on the resolver\<close>

lemma str_contains_sublist: "str_contains k s = sublist k s"
  by (induction s) (simp_all add: sublist_Cons_right)

lemma match_keys_col_matches: "match_keys c keys = col_matches keys c"
  by (induction keys) (simp_all add: col_matches_def str_contains_sublist)

lemma find_col_find: "find_col cols keys = find (col_matches keys) cols"
  by (induction cols) (simp_all add: match_keys_col_matches)

lemma find_col_in_columns: "find_col cols keys = Some c \<Longrightarrow> c \<in> set cols"
  by (induction cols) (auto split: if_splits)

lemma lower_Region: "lower ''Region'' = ''region''"
  by (simp add: lower_def char_lower_def)

lemma lower_DPD_Bucket: "lower ''DPD Bucket'' = ''dpd bucket''"
  by (simp add: lower_def char_lower_def)

lemma lower_Connect: "lower ''Connect'' = ''connect''"
  by (simp add: lower_def char_lower_def)

lemmas lower_headers = lower_Region lower_DPD_Bucket lower_Connect

section \<open>Lemmas on tables, the loader and the filters\<close>

lemma cell_of_upd: "cell_of (r(c \<mapsto> v)) col = (if col = c then v else cell_of r col)"
  by (simp add: cell_of_def)

lemma mask_map: "map fst (filter snd (zip xs (map f xs))) = filter f xs"
  by (induction xs) simp_all

lemma mask_rows_map: "mask_rows df (map f (rows df)) = df\<lparr>rows := filter f (rows df)\<rparr>"
  by (simp add: mask_rows_def mask_map)

lemma filter_text_eq:
  "col \<in> set (columns df) \<Longrightarrow>
   filter_text shw col sel df = Inr (df\<lparr>rows := filter (keep_text shw col sel) (rows df)\<rparr>)"
proof -
  have k: "sel \<noteq> ''All'' \<Longrightarrow> keep_text shw col sel = (\<lambda>r. astype_str shw (cell_of r col) = sel)"
    by (simp add: fun_eq_iff keep_text_def)
  have a: "keep_text shw col ''All'' = (\<lambda>r. True)"
    by (simp add: fun_eq_iff keep_text_def)
  have m: "map (\<lambda>c. astype_str shw c = sel) (map (\<lambda>r. cell_of r col) (rows df)) =
      map (\<lambda>r. astype_str shw (cell_of r col) = sel) (rows df)"
    by simp
  assume "col \<in> set (columns df)"
  then show ?thesis
    by (cases "sel = ''All''") (simp_all add: filter_text_def getitem_def m mask_rows_map k a del: map_map)
qed

lemma numeric_columnD:
  "numeric_column df col \<Longrightarrow> r \<in> set (rows df) \<Longrightarrow> \<exists>x. r col = Some (Num x)"
proof -
  assume "numeric_column df col" "r \<in> set (rows df)"
  then have "case r col of Some (Num x) \<Rightarrow> True | _ \<Rightarrow> False"
    by (simp add: numeric_column_def list_all_iff)
  then show ?thesis
    by (cases "r col") (auto split: cell.splits)
qed

lemma numeric_column_cell:
  "numeric_column df col \<Longrightarrow> r \<in> set (rows df) \<Longrightarrow> cell_of r col = Num (num_of (cell_of r col))"
  by (auto dest!: numeric_columnD simp: cell_of_def)

lemma numeric_column_filter:
  "numeric_column df col \<Longrightarrow> numeric_column (df\<lparr>rows := filter P (rows df)\<rparr>) col"
  by (simp add: numeric_column_def list_all_iff)

lemma map_err_gt_zero:
  "\<forall>r \<in> set rs. \<exists>x. cell_of r c = Num x \<Longrightarrow>
   map_err gt_zero (map (\<lambda>r. cell_of r c) rs) = Inr (map (\<lambda>r. 0 < num_of (cell_of r c)) rs)"
  by (induction rs) auto

lemma filter_connect_eq:
  assumes "''Connect'' \<in> set (columns df)" "numeric_column df ''Connect''"
  shows "filter_connect cf df = Inr (df\<lparr>rows := filter (keep_connect cf) (rows df)\<rparr>)"
proof -
  have num: "\<forall>r \<in> set (rows df). \<exists>x. cell_of r ''Connect'' = Num x"
    using assms(2) numeric_column_cell by blast
  have gt: "map_err gt_zero (map (\<lambda>r. cell_of r ''Connect'') (rows df)) =
      Inr (map (\<lambda>r. 0 < num_of (cell_of r ''Connect'')) (rows df))"
    by (rule map_err_gt_zero[OF num])
  have eq: "map eq_zero (map (\<lambda>r. cell_of r ''Connect'') (rows df)) =
      map (\<lambda>r. eq_zero (cell_of r ''Connect'')) (rows df)"
    by simp
  have k: "keep_connect cf =
      (if cf = ''Connected'' then (\<lambda>r. 0 < num_of (cell_of r ''Connect''))
       else if cf = ''Not Connected'' then (\<lambda>r. eq_zero (cell_of r ''Connect''))
       else (\<lambda>r. True))"
    by (simp add: fun_eq_iff keep_connect_def)
  show ?thesis
    using assms(1)
    by (simp add: filter_connect_def getitem_def gt eq mask_rows_map k del: map_map)
qed

lemma filter_connect_absent:
  "''Connect'' \<notin> set (columns df) \<Longrightarrow>
   filter_connect cf df =
     (if cf = ''Connected'' \<or> cf = ''Not Connected'' then Inl (KeyError ''Connect'') else Inr df)"
  by (simp add: filter_connect_def getitem_def)

lemma coerce_idem:
  "fillna0 (to_numeric parse (fillna0 (to_numeric parse c))) = fillna0 (to_numeric parse c)"
  by (cases c) (auto split: option.splits)

lemma coerce_is_num: "\<exists>x. fillna0 (to_numeric parse c) = Num x"
  by (cases c) (auto split: option.splits)

lemma columns_coerce_col: "columns (coerce_col parse col df) = columns df"
  by (simp add: coerce_col_def)

lemma columns_coerce_cols: "columns (coerce_cols parse cs df) = columns df"
  by (induction cs arbitrary: df) (simp_all add: columns_coerce_col)

lemma rows_coerce_cols:
  "rows (coerce_cols parse cs df) =
   map (\<lambda>r col. if col \<in> set cs \<and> col \<in> set (columns df)
                 then Some (fillna0 (to_numeric parse (cell_of r col))) else r col)
     (rows df)"
proof (induction cs arbitrary: df)
  case Nil
  then show ?case by (simp add: map_idI)
next
  case (Cons c cs)
  show ?case
  proof (cases "c \<in> set (columns df)")
    case True
    have "rows (coerce_cols parse (c # cs) df) = rows (coerce_cols parse cs (coerce_col parse c df))"
      using True by simp
    also have "\<dots> = map (\<lambda>r col. if col \<in> set cs \<and> col \<in> set (columns df)
                 then Some (fillna0 (to_numeric parse (cell_of r col))) else r col)
                 (rows (coerce_col parse c df))"
      by (simp add: Cons.IH columns_coerce_col)
    also have "\<dots> = map (\<lambda>r col. if col \<in> set (c # cs) \<and> col \<in> set (columns df)
                 then Some (fillna0 (to_numeric parse (cell_of r col))) else r col) (rows df)"
      using True by (auto simp: coerce_col_def fun_eq_iff cell_of_upd coerce_idem)
    finally show ?thesis .
  next
    case False
    then show ?thesis
      by (auto simp: Cons.IH fun_eq_iff)
  qed
qed

lemma columns_load_data: "columns (load_data parse raw) = map strip (columns raw)"
  by (simp add: load_data_def columns_coerce_cols normalize_columns_def)

lemma length_rows_load_data: "length (rows (load_data parse raw)) = length (rows raw)"
  by (simp add: load_data_def rows_coerce_cols normalize_columns_def)

lemma load_data_cell:
  assumes "col \<in> set numeric_cols" "col \<in> set (columns (load_data parse raw))"
    "i < length (rows raw)"
  shows "(rows (load_data parse raw) ! i) col =
    Some (fillna0 (to_numeric parse (cell_of (rows (normalize_columns raw) ! i) col)))"
proof -
  have c: "col \<in> set (columns (normalize_columns raw))"
    using assms(2) by (simp add: columns_load_data normalize_columns_def)
  have l: "i < length (rows (normalize_columns raw))"
    using assms(3) by (simp add: normalize_columns_def)
  show ?thesis
    using assms(1) c l by (simp add: load_data_def rows_coerce_cols)
qed

lemma numeric_column_load_data:
  assumes "col \<in> set numeric_cols" "col \<in> set (columns (load_data parse raw))"
  shows "numeric_column (load_data parse raw) col"
proof -
  have "\<exists>x. r col = Some (Num x)" if "r \<in> set (rows (load_data parse raw))" for r
  proof -
    from that obtain i where i: "i < length (rows (load_data parse raw))"
      and r: "r = rows (load_data parse raw) ! i"
      by (auto simp: in_set_conv_nth)
    from i have "i < length (rows raw)" by (simp add: length_rows_load_data)
    from load_data_cell[OF assms this] r coerce_is_num show ?thesis by metis
  qed
  then show ?thesis
    by (fastforce simp: numeric_column_def list_all_iff)
qed

lemma map_err_gt_zero_Inr:
  "map_err gt_zero cs = Inr m \<Longrightarrow> m = map (\<lambda>c. 0 < num_of c) cs"
proof (induction cs arbitrary: m)
  case Nil
  then show ?case by simp
next
  case (Cons c cs)
  then show ?case
    by (cases c) (auto split: sum.splits)
qed

lemma filter_text_Inr:
  assumes "filter_text shw col sel df = Inr F"
  shows "F = df\<lparr>rows := filter (keep_text shw col sel) (rows df)\<rparr>"
proof (cases "sel = ''All''")
  case True
  have "keep_text shw col ''All'' = (\<lambda>r. True)"
    by (simp add: fun_eq_iff keep_text_def)
  with True assms show ?thesis
    by (simp add: filter_text_def)
next
  case False
  with assms have "col \<in> set (columns df)"
    by (auto simp: filter_text_def getitem_def split: if_splits)
  from filter_text_eq[OF this] assms show ?thesis by simp
qed

lemma filter_connect_Inr:
  assumes "filter_connect cf df = Inr F"
  shows "F = df\<lparr>rows := filter (keep_connect cf) (rows df)\<rparr>"
proof -
  have k: "keep_connect c =
      (if c = ''Connected'' then (\<lambda>r. 0 < num_of (cell_of r ''Connect''))
       else if c = ''Not Connected'' then (\<lambda>r. eq_zero (cell_of r ''Connect''))
       else (\<lambda>r. True))" for c
    by (simp add: fun_eq_iff keep_connect_def)
  have m: "map f (map (\<lambda>r. cell_of r ''Connect'') (rows df)) =
      map (\<lambda>r. f (cell_of r ''Connect'')) (rows df)" for f :: "cell \<Rightarrow> bool"
    by simp
  consider "cf = ''Connected''" | "cf = ''Not Connected''"
    | "cf \<noteq> ''Connected''" "cf \<noteq> ''Not Connected''"
    by blast
  then show ?thesis
  proof cases
    case 1
    with assms obtain msk where c: "''Connect'' \<in> set (columns df)"
      and g: "map_err gt_zero (map (\<lambda>r. cell_of r ''Connect'') (rows df)) = Inr msk"
      and F: "F = mask_rows df msk"
      by (cases "map_err gt_zero (map (\<lambda>r. cell_of r ''Connect'') (rows df))")
        (auto simp: filter_connect_def getitem_def split: if_splits)
    from map_err_gt_zero_Inr[OF g] F 1 show ?thesis
      by (simp add: m mask_rows_map k del: map_map)
  next
    case 2
    with assms show ?thesis
      by (auto simp: filter_connect_def getitem_def m mask_rows_map k
          simp del: map_map split: if_splits)
  next
    case 3
    with assms show ?thesis
      by (simp add: filter_connect_def k)
  qed
qed

lemma apply_filters_Inr:
  assumes "apply_filters shw df state_col dpd_col state dpd connect_filter = Inr F"
  shows "F = df\<lparr>rows := filter (\<lambda>r. keep_text shw state_col state r \<and>
             keep_text shw dpd_col dpd r \<and> keep_connect connect_filter r) (rows df)\<rparr>"
proof -
  from assms obtain A where A: "filter_text shw state_col state df = Inr A"
    by (cases "filter_text shw state_col state df") (auto simp: apply_filters_def)
  with assms obtain B where B: "filter_text shw dpd_col dpd A = Inr B"
    by (cases "filter_text shw dpd_col dpd A") (auto simp: apply_filters_def)
  with A assms have C: "filter_connect connect_filter B = Inr F"
    by (simp add: apply_filters_def)
  show ?thesis
    unfolding filter_connect_Inr[OF C] filter_text_Inr[OF B] filter_text_Inr[OF A]
    by (simp add: conj_commute conj_left_commute)
qed

lemma filter_as_indices:
  "\<exists>is. sorted_wrt (<) is \<and> (\<forall>i \<in> set is. i < length xs) \<and> filter P xs = map ((!) xs) is"
proof -
  have "filter P xs = filter P (map ((!) xs) [0..<length xs])"
    by (simp add: map_nth)
  also have "\<dots> = map ((!) xs) (filter (\<lambda>i. P (xs ! i)) [0..<length xs])"
    by (simp add: filter_map comp_def)
  finally have "filter P xs = map ((!) xs) (filter (\<lambda>i. P (xs ! i)) [0..<length xs])" .
  moreover have "sorted_wrt (<) (filter (\<lambda>i. P (xs ! i)) [0..<length xs])"
    by (simp add: sorted_wrt_filter)
  moreover have "\<forall>i \<in> set (filter (\<lambda>i. P (xs ! i)) [0..<length xs]). i < length xs"
    by simp
  ultimately show ?thesis by blast
qed


lemma round2_zero: "round2 0 = 0"
  by (simp add: round2_def round_half_even_def)

lemma py_int_zero: "py_int 0 = 0"
  by (simp add: py_int_def)




lemma numeric_columnI:
  assumes "\<And>r. r \<in> set (rows df) \<Longrightarrow> \<exists>x. cell_of r col = Num x"
  shows "numeric_column df col"
proof -
  have "case r col of Some (Num x) \<Rightarrow> True | _ \<Rightarrow> False" if "r \<in> set (rows df)" for r
    using assms[OF that] by (cases "r col") (auto simp: cell_of_def)
  then show ?thesis
    by (simp add: numeric_column_def list_all_iff)
qed



lemma total_empty: "rows F = [] \<Longrightarrow> total F col = Inr 0"
  by (simp add: total_def getitem_def py_int_zero)

lemma crore_empty: "rows F = [] \<Longrightarrow> crore F col = Inr 0"
  by (simp add: crore_def getitem_def round2_zero)

lemma filter_connect_step:
  assumes "''Connect'' \<in> set (columns df) \<Longrightarrow> numeric_column df ''Connect''"
  shows "filter_connect cf df =
    (if ''Connect'' \<notin> set (columns df) \<and> (cf = ''Connected'' \<or> cf = ''Not Connected'')
     then Inl (KeyError ''Connect'')
     else Inr (df\<lparr>rows := filter (keep_connect cf) (rows df)\<rparr>))"
proof (cases "''Connect'' \<in> set (columns df)")
  case True
  then show ?thesis
    using filter_connect_eq[OF True assms[OF True]] by simp
next
  case False
  have "keep_connect cf = (\<lambda>r. True)" if "cf \<noteq> ''Connected''" "cf \<noteq> ''Not Connected''"
    using that by (simp add: fun_eq_iff keep_connect_def)
  with False show ?thesis
    by (auto simp: filter_connect_absent)
qed

lemma three_steps:
  assumes sc: "state_col \<in> set (columns df)" and dc: "dpd_col \<in> set (columns df)"
    and num: "''Connect'' \<in> set (columns df) \<Longrightarrow> numeric_column df ''Connect''"
    and steps: "steps \<in> {[R, D, K], [R, K, D], [D, R, K], [D, K, R], [K, R, D], [K, D, R]}"
    and R: "R = filter_text shw state_col state" and D: "D = filter_text shw dpd_col dpd"
    and K: "K = filter_connect cf"
  shows "run_steps steps df =
    (if ''Connect'' \<notin> set (columns df) \<and> (cf = ''Connected'' \<or> cf = ''Not Connected'')
     then Inl (KeyError ''Connect'')
     else Inr (df\<lparr>rows := filter (\<lambda>r. keep_text shw state_col state r \<and>
             keep_text shw dpd_col dpd r \<and> keep_connect cf r) (rows df)\<rparr>))"
proof -
  have t: "filter_text shw col sel (df\<lparr>rows := rs\<rparr>) =
      Inr (df\<lparr>rows := filter (keep_text shw col sel) rs\<rparr>)"
    if "col \<in> set (columns df)" for col sel rs
    using filter_text_eq[of col "df\<lparr>rows := rs\<rparr>" shw sel] that by simp
  have c: "filter_connect cf (df\<lparr>rows := filter P (rows df)\<rparr>) =
    (if ''Connect'' \<notin> set (columns df) \<and> (cf = ''Connected'' \<or> cf = ''Not Connected'')
     then Inl (KeyError ''Connect'')
     else Inr (df\<lparr>rows := filter (\<lambda>r. P r \<and> keep_connect cf r) (rows df)\<rparr>))" for P
    using filter_connect_step[of "df\<lparr>rows := filter P (rows df)\<rparr>" cf] num
    by (simp add: numeric_column_filter)
  have t0: "filter_text shw col sel df = Inr (df\<lparr>rows := filter (keep_text shw col sel) (rows df)\<rparr>)"
    if "col \<in> set (columns df)" for col sel
    using filter_text_eq[OF that] .
  have c0: "filter_connect cf df =
    (if ''Connect'' \<notin> set (columns df) \<and> (cf = ''Connected'' \<or> cf = ''Not Connected'')
     then Inl (KeyError ''Connect'')
     else Inr (df\<lparr>rows := filter (keep_connect cf) (rows df)\<rparr>))"
    using filter_connect_step[of df cf] num by simp
  from steps consider "steps = [R, D, K]" | "steps = [R, K, D]" | "steps = [D, R, K]"
    | "steps = [D, K, R]" | "steps = [K, R, D]" | "steps = [K, D, R]"
    by auto
  then show ?thesis
  proof cases
    case 1
    then show ?thesis by (simp add: run_steps_def R D K t0[OF sc] t[OF dc] c conj_commute conj_left_commute)
  next
    case 2
    then show ?thesis by (simp add: run_steps_def R D K t0[OF sc] t[OF dc] c conj_commute conj_left_commute)
  next
    case 3
    then show ?thesis by (simp add: run_steps_def R D K t0[OF dc] t[OF sc] c conj_commute conj_left_commute)
  next
    case 4
    then show ?thesis by (simp add: run_steps_def R D K t0[OF dc] t[OF sc] c conj_commute conj_left_commute)
  next
    case 5
    then show ?thesis by (simp add: run_steps_def R D K c0 t[OF sc] t[OF dc] conj_commute conj_left_commute)
  next
    case 6
    then show ?thesis by (simp add: run_steps_def R D K c0 t[OF sc] t[OF dc] conj_commute conj_left_commute)
  qed
qed

lemma run_steps_code_order:
  "run_steps [filter_text shw state_col state, filter_text shw dpd_col dpd,
      filter_connect connect_filter] df =
   apply_filters shw df state_col dpd_col state dpd connect_filter"
  by (simp add: run_steps_def apply_filters_def)

section \<open>The example inputs, evaluated\<close>

lemma strip_headers:
  "strip ''State'' = ''State''" "strip ''DPD Bucket'' = ''DPD Bucket''"
  "strip ''Connect'' = ''Connect''" "strip ''Collection Amount'' = ''Collection Amount''"
  "strip ''Principal Outstanding'' = ''Principal Outstanding''"
  by (simp_all add: strip_def is_space_def)

lemma load_scenario:
  "load_data parse_example scenario_raw =
     \<lparr>columns = [''State'', ''DPD Bucket'', ''Connect'', ''Collection Amount'',
                 ''Principal Outstanding''],
      rows = [[''State'' \<mapsto> Str ''MH'', ''DPD Bucket'' \<mapsto> Str ''0-30'', ''Connect'' \<mapsto> Num 1,
               ''Collection Amount'' \<mapsto> Num 10000000, ''Principal Outstanding'' \<mapsto> Num 150],
              [''State'' \<mapsto> Str ''MH'', ''DPD Bucket'' \<mapsto> Str ''31-60'', ''Connect'' \<mapsto> Num 0,
               ''Collection Amount'' \<mapsto> Num 20000000, ''Principal Outstanding'' \<mapsto> Num 0]]\<rparr>"
  by (simp add: load_data_def normalize_columns_def scenario_raw_def strip_headers numeric_cols_def
      rename_row_def cell_of_def coerce_col_def parse_example_def fun_eq_iff)

lemma load_no_connect: "load_data parse_example no_connect_raw = no_connect_raw"
  by (simp add: load_data_def normalize_columns_def no_connect_raw_def strip_headers numeric_cols_def
      rename_row_def cell_of_def coerce_col_def parse_example_def fun_eq_iff)

lemma load_no_amounts: "load_data parse_example no_amounts_raw = no_amounts_raw"
  by (simp add: load_data_def normalize_columns_def no_amounts_raw_def strip_headers numeric_cols_def
      rename_row_def cell_of_def coerce_col_def parse_example_def fun_eq_iff)

lemma lower_State: "lower ''State'' = ''state''"
  by (simp add: lower_def char_lower_def)

lemma lower_more: "lower ''Collection Amount'' = ''collection amount''"
  "lower ''Principal Outstanding'' = ''principal outstanding''"
  by (simp_all add: lower_def char_lower_def)

lemma find_scenario:
  "find_col [''State'', ''DPD Bucket'', ''Connect'', ''Collection Amount'', ''Principal Outstanding''] [''state''] = Some ''State''"
  "find_col [''State'', ''DPD Bucket'', ''Connect'', ''Collection Amount'', ''Principal Outstanding''] [''dpd''] = Some ''DPD Bucket''"
  "find_col [''State'', ''DPD Bucket'', ''Collection Amount'', ''Principal Outstanding''] [''state''] = Some ''State''"
  "find_col [''State'', ''DPD Bucket'', ''Collection Amount'', ''Principal Outstanding''] [''dpd''] = Some ''DPD Bucket''"
  "find_col [''State'', ''DPD Bucket'', ''Connect''] [''state''] = Some ''State''"
  "find_col [''State'', ''DPD Bucket'', ''Connect''] [''dpd''] = Some ''DPD Bucket''"
  by (simp_all add: lower_State lower_headers lower_more)

lemma lower_My_State: "lower ''My State'' = ''my state''" "lower ''DPD'' = ''dpd''"
  by (simp_all add: lower_def char_lower_def)



lemma apply_scenario_Connected:
  "apply_filters shw_example (load_data parse_example scenario_raw) ''State'' ''DPD Bucket''
     ''MH'' ''0-30'' ''Connected'' =
   Inr \<lparr>columns = [''State'', ''DPD Bucket'', ''Connect'', ''Collection Amount'',
                 ''Principal Outstanding''],
      rows = [[''State'' \<mapsto> Str ''MH'', ''DPD Bucket'' \<mapsto> Str ''0-30'', ''Connect'' \<mapsto> Num 1,
               ''Collection Amount'' \<mapsto> Num 10000000, ''Principal Outstanding'' \<mapsto> Num 150]]\<rparr>"
  by (simp add: load_scenario apply_filters_def filter_text_def filter_connect_def getitem_def
      mask_rows_def cell_of_def)

lemma apply_scenario_GJ:
  "apply_filters shw_example (load_data parse_example scenario_raw) ''State'' ''DPD Bucket''
     ''GJ'' ''All'' ''All'' = Inr ((load_data parse_example scenario_raw)\<lparr>rows := []\<rparr>)"
  by (simp add: load_scenario apply_filters_def filter_text_def filter_connect_def getitem_def
      mask_rows_def cell_of_def)

section \<open>Claims on the resolver\<close>

text \<open>
  C1, as stated: on the headers Region, DPD Bucket, Connect the resolver returns Region
  for the keyword list [state]. The code does not: no header contains the text state, so
  the scan falls through to \<open>return None\<close>.
\<close>

theorem find_col_state_not_Region:
  "find_col [''Region'', ''DPD Bucket'', ''Connect''] [''state''] \<noteq> Some ''Region''"
  by (simp add: lower_headers)

text \<open>
  C1, amended: on the headers Region, DPD Bucket, Connect the resolver returns not-found
  for the keyword list [state] and returns DPD Bucket for the keyword list [dpd].
\<close>

theorem find_col_example_headers:
  "find_col [''Region'', ''DPD Bucket'', ''Connect''] [''state''] = None \<and>
   find_col [''Region'', ''DPD Bucket'', ''Connect''] [''dpd''] = Some ''DPD Bucket''"
  by (simp add: lower_headers)

text \<open>
  C5: the nested scan of the code returns the first column, in table order, whose
  lowercased name contains one of the keywords as a substring. So a returned column sits
  at a position before which no column matches any keyword (the earliest column wins,
  whatever the position of the keyword it matches), and not-found is returned exactly
  when no column matches any keyword.
\<close>

theorem find_col_first_match:
  "find_col cols keys = find_column_spec cols keys \<and>
   (find_col cols keys = None \<longleftrightarrow> (\<forall>c \<in> set cols. \<not> col_matches keys c)) \<and>
   (\<forall>c. find_col cols keys = Some c \<longleftrightarrow>
      (\<exists>i < length cols. cols ! i = c \<and> col_matches keys c \<and>
         (\<forall>j < i. \<not> col_matches keys (cols ! j))))"
  unfolding find_column_spec_def find_col_find
  by (simp add: find_None_iff find_Some_iff) blast

text \<open>
  The claim C5 at work: the column My State comes first and matches the second keyword,
  the column DPD matches the first keyword; the earlier column is returned. On headers
  none of which contains the keyword, the result is not-found.
\<close>

theorem find_col_first_match_witness:
  "find_col [''My State'', ''DPD''] [''dpd'', ''state''] = Some ''My State'' \<and>
   find_column_spec [''My State'', ''DPD''] [''dpd'', ''state''] = Some ''My State'' \<and>
   find_col [''Area'', ''Days''] [''state''] = None"
proof -
  have a: "find_col [''My State'', ''DPD''] [''dpd'', ''state''] = Some ''My State''"
    by (simp add: lower_My_State)
  have b: "find_col [''Area'', ''Days''] [''state''] = None"
    by (simp add: lower_def char_lower_def)
  from find_col_first_match[of "[''My State'', ''DPD'']" "[''dpd'', ''state'']"] a b
  show ?thesis by simp
qed

section \<open>Claims on the loader\<close>

text \<open>
  C3, as stated: after loading, every present column of the numeric list holds only
  values that are zero or positive. The loader keeps a negative number as it is: a cell
  -5 of the column Connect is -5 after loading.
\<close>

theorem load_data_keeps_negative:
  "''Connect'' \<in> set numeric_cols \<and>
   (rows (load_data parse_example
      \<lparr>columns = [''Connect''], rows = [[''Connect'' \<mapsto> Num (- 5)]]\<rparr>) ! 0) ''Connect'' =
     Some (Num (- 5)) \<and>
   \<not> (0::real) \<le> - 5"
  by (simp add: load_data_def normalize_columns_def numeric_cols_def strip_headers
      rename_row_def cell_of_def coerce_col_def)

text \<open>
  C3, amended: after loading, every cell of a present column of the numeric list is a
  number and never the missing value; a cell whose coercion failed (an empty cell or a
  text that is not a number) is exactly zero, and a cell that is a number, or a text that
  parses to one, holds that number, whatever its sign. The table keeps its number of rows.
\<close>

theorem load_data_numeric:
  assumes "col \<in> set numeric_cols" and "col \<in> set (columns (load_data parse raw))"
    and "i < length (rows raw)"
  shows "length (rows (load_data parse raw)) = length (rows raw) \<and>
    (\<exists>x. (rows (load_data parse raw) ! i) col = Some (Num x)) \<and>
    (rows (load_data parse raw) ! i) col \<noteq> Some Null \<and>
    (to_numeric parse (cell_of (rows (normalize_columns raw) ! i) col) = Null \<longrightarrow>
       (rows (load_data parse raw) ! i) col = Some (Num 0)) \<and>
    (\<forall>x. to_numeric parse (cell_of (rows (normalize_columns raw) ! i) col) = Num x \<longrightarrow>
       (rows (load_data parse raw) ! i) col = Some (Num x))"
  using load_data_cell[OF assms]
    coerce_is_num[of parse "cell_of (rows (normalize_columns raw) ! i) col"]
  by (auto simp: length_rows_load_data)

text \<open>
  The claim C3 at work on the scenario table: in the column Principal Outstanding the text
  150 becomes the number 150 and the text n/a becomes 0.
\<close>

theorem load_data_numeric_witness:
  "(rows (load_data parse_example scenario_raw) ! 0) ''Principal Outstanding'' = Some (Num 150) \<and>
   (rows (load_data parse_example scenario_raw) ! 1) ''Principal Outstanding'' = Some (Num 0)"
proof -
  have n: "''Principal Outstanding'' \<in> set numeric_cols"
    by (simp add: numeric_cols_def)
  have c: "''Principal Outstanding'' \<in> set (columns (load_data parse_example scenario_raw))"
    by (simp add: load_scenario)
  have l: "0 < length (rows scenario_raw)" "1 < length (rows scenario_raw)"
    by (simp_all add: scenario_raw_def)
  have s0: "to_numeric parse_example
      (cell_of (rows (normalize_columns scenario_raw) ! 0) ''Principal Outstanding'') = Num 150"
    by (simp add: normalize_columns_def scenario_raw_def rename_row_def cell_of_def strip_headers
        parse_example_def)
  have s1: "to_numeric parse_example
      (cell_of (rows (normalize_columns scenario_raw) ! 1) ''Principal Outstanding'') = Null"
    by (simp add: normalize_columns_def scenario_raw_def rename_row_def cell_of_def strip_headers
        parse_example_def)
  from load_data_numeric[OF n c l(1)] load_data_numeric[OF n c l(2)] s0 s1
  show ?thesis by simp
qed

section \<open>Claims on the filters\<close>

text \<open>
  C6: with the three selections All, the filter pipeline returns the table it was given,
  unchanged.
\<close>

theorem identity_filter:
  "apply_filters shw df state_col dpd_col ''All'' ''All'' ''All'' = Inr df"
  by (simp add: apply_filters_def filter_text_def filter_connect_def)

text \<open>
  The claim C6 at work on the loaded scenario table.
\<close>

theorem identity_filter_witness:
  "apply_filters shw_example (load_data parse_example scenario_raw) ''State'' ''DPD Bucket''
     ''All'' ''All'' ''All'' = Inr (load_data parse_example scenario_raw)"
  by (rule identity_filter)

text \<open>
  C9: when the filter pipeline returns a table, that table has the columns of the input,
  and its rows are rows of the input, taken at strictly increasing positions: no row is
  duplicated, made up or moved. They are the rows that pass the three row tests.
\<close>

theorem filtering_keeps_rows_in_order:
  assumes "apply_filters shw df state_col dpd_col state dpd connect_filter = Inr F"
  shows "columns F = columns df \<and>
    rows F = filter (\<lambda>r. keep_text shw state_col state r \<and> keep_text shw dpd_col dpd r \<and>
               keep_connect connect_filter r) (rows df) \<and>
    subseq (rows F) (rows df) \<and>
    (\<exists>is. sorted_wrt (<) is \<and> (\<forall>i \<in> set is. i < length (rows df)) \<and>
       rows F = map ((!) (rows df)) is)"
  unfolding apply_filters_Inr[OF assms]
  using filter_as_indices[of "rows df" "\<lambda>r. keep_text shw state_col state r \<and>
      keep_text shw dpd_col dpd r \<and> keep_connect connect_filter r"]
  by simp

text \<open>
  The claim C9 at work: region MH, bucket 0-30 and Connected keep the first row of the
  loaded scenario table.
\<close>

theorem filtering_keeps_rows_in_order_witness:
  "subseq
     [[''State'' \<mapsto> Str ''MH'', ''DPD Bucket'' \<mapsto> Str ''0-30'', ''Connect'' \<mapsto> Num 1,
       ''Collection Amount'' \<mapsto> Num 10000000, ''Principal Outstanding'' \<mapsto> Num 150]]
     (rows (load_data parse_example scenario_raw))"
  using filtering_keeps_rows_in_order[OF apply_scenario_Connected] by simp

text \<open>
  C7: on a table with the column Connect whose values are all numbers, zero or positive,
  take the base set from the region and bucket filters. Then Connected and Not Connected
  both return, keep the columns, and split the rows of the base set: no row is in both,
  and together they are the rows of the base set, each as often as there.
\<close>

theorem connect_partition:
  assumes "''Connect'' \<in> set (columns df)"
    and "\<forall>r \<in> set (rows df). \<exists>x. 0 \<le> x \<and> cell_of r ''Connect'' = Num x"
    and "and_then (filter_text shw state_col state df) (filter_text shw dpd_col dpd) = Inr base"
  shows "\<exists>C N. filter_connect ''Connected'' base = Inr C \<and>
           filter_connect ''Not Connected'' base = Inr N \<and>
           columns C = columns base \<and> columns N = columns base \<and>
           set (rows C) \<inter> set (rows N) = {} \<and>
           set (rows C) \<union> set (rows N) = set (rows base) \<and>
           mset (rows C) + mset (rows N) = mset (rows base)"
proof -
  from assms(3) obtain A where A: "filter_text shw state_col state df = Inr A"
    and B: "filter_text shw dpd_col dpd A = Inr base"
    by (cases "filter_text shw state_col state df") auto
  have base: "columns base = columns df" "set (rows base) \<subseteq> set (rows df)"
    unfolding filter_text_Inr[OF B] filter_text_Inr[OF A] by auto
  have c: "''Connect'' \<in> set (columns base)"
    using assms(1) base(1) by simp
  have val: "\<exists>x. 0 \<le> x \<and> cell_of r ''Connect'' = Num x" if "r \<in> set (rows base)" for r
    using that assms(2) base(2) by blast
  have num: "numeric_column base ''Connect''"
    by (rule numeric_columnI) (use val in blast)
  have neg: "keep_connect ''Not Connected'' r = (\<not> keep_connect ''Connected'' r)"
    if "r \<in> set (rows base)" for r
    using val[OF that] by (auto simp: keep_connect_def)
  have N: "filter (keep_connect ''Not Connected'') (rows base) =
      filter (\<lambda>r. \<not> keep_connect ''Connected'' r) (rows base)"
    by (rule filter_cong) (simp_all add: neg)
  define C where "C = base\<lparr>rows := filter (keep_connect ''Connected'') (rows base)\<rparr>"
  define N where "N = base\<lparr>rows := filter (\<lambda>r. \<not> keep_connect ''Connected'' r) (rows base)\<rparr>"
  have "filter_connect ''Connected'' base = Inr C"
    by (simp add: filter_connect_eq[OF c num] C_def)
  moreover have "filter_connect ''Not Connected'' base = Inr N"
    by (simp add: filter_connect_eq[OF c num] N N_def)
  moreover have "columns C = columns base" "columns N = columns base"
    by (simp_all add: C_def N_def)
  moreover have "set (rows C) \<inter> set (rows N) = {}"
    by (auto simp: C_def N_def)
  moreover have "set (rows C) \<union> set (rows N) = set (rows base)"
    by (auto simp: C_def N_def)
  moreover have "mset (rows C) + mset (rows N) = mset (rows base)"
    by (simp add: C_def N_def)
  ultimately show ?thesis by blast
qed

text \<open>
  The claim C7 at work on the loaded scenario table, with region MH and every bucket.
\<close>

theorem connect_partition_witness:
  "\<exists>C N. filter_connect ''Connected'' (load_data parse_example scenario_raw) = Inr C \<and>
     filter_connect ''Not Connected'' (load_data parse_example scenario_raw) = Inr N \<and>
     columns C = columns (load_data parse_example scenario_raw) \<and>
     columns N = columns (load_data parse_example scenario_raw) \<and>
     set (rows C) \<inter> set (rows N) = {} \<and>
     set (rows C) \<union> set (rows N) = set (rows (load_data parse_example scenario_raw)) \<and>
     mset (rows C) + mset (rows N) = mset (rows (load_data parse_example scenario_raw))"
proof -
  have c: "''Connect'' \<in> set (columns (load_data parse_example scenario_raw))"
    by (simp add: load_scenario)
  have v: "\<forall>r \<in> set (rows (load_data parse_example scenario_raw)).
      \<exists>x. 0 \<le> x \<and> cell_of r ''Connect'' = Num x"
    by (simp add: load_scenario cell_of_def)
  have b: "and_then (filter_text shw_example ''State'' ''MH'' (load_data parse_example scenario_raw))
      (filter_text shw_example ''DPD Bucket'' ''All'') = Inr (load_data parse_example scenario_raw)"
    by (simp add: load_scenario filter_text_def getitem_def mask_rows_def cell_of_def)
  show ?thesis
    by (rule connect_partition[OF c v b])
qed

text \<open>
  C8: on a loaded table whose region and bucket columns the resolver has found, the three
  filter steps give the same result in each of their six orders, the order of the script
  included. The result is the same table, or the same KeyError when Connect is absent and
  the connect selection asks for it.
\<close>

theorem filters_commute:
  assumes "df = load_data parse raw"
    and "find_col (columns df) [''state''] = Some state_col"
    and "find_col (columns df) [''dpd''] = Some dpd_col"
    and "R = filter_text shw state_col state"
    and "D = filter_text shw dpd_col dpd"
    and "K = filter_connect connect_filter"
    and "steps \<in> {[R, D, K], [R, K, D], [D, R, K], [D, K, R], [K, R, D], [K, D, R]}"
  shows "run_steps steps df = apply_filters shw df state_col dpd_col state dpd connect_filter"
proof -
  have sc: "state_col \<in> set (columns df)" and dc: "dpd_col \<in> set (columns df)"
    using assms(2,3) by (auto dest: find_col_in_columns)
  have num: "numeric_column df ''Connect''" if "''Connect'' \<in> set (columns df)"
    using that unfolding assms(1)
    by (intro numeric_column_load_data) (simp_all add: numeric_cols_def)
  have code: "[R, D, K] \<in> {[R, D, K], [R, K, D], [D, R, K], [D, K, R], [K, R, D], [K, D, R]}"
    by simp
  have "run_steps steps df = run_steps [R, D, K] df"
    by (simp only: three_steps[OF sc dc num assms(7) assms(4-6)]
        three_steps[OF sc dc num code assms(4-6)])
  then show ?thesis
    by (simp add: assms(4-6) run_steps_code_order)
qed

text \<open>
  The claim C8 at work: connect step first, then bucket, then region, on the loaded
  scenario table.
\<close>

theorem filters_commute_witness:
  "run_steps [filter_connect ''Connected'', filter_text shw_example ''DPD Bucket'' ''0-30'',
      filter_text shw_example ''State'' ''MH''] (load_data parse_example scenario_raw) =
   Inr \<lparr>columns = [''State'', ''DPD Bucket'', ''Connect'', ''Collection Amount'',
                 ''Principal Outstanding''],
      rows = [[''State'' \<mapsto> Str ''MH'', ''DPD Bucket'' \<mapsto> Str ''0-30'', ''Connect'' \<mapsto> Num 1,
               ''Collection Amount'' \<mapsto> Num 10000000, ''Principal Outstanding'' \<mapsto> Num 150]]\<rparr>"
proof -
  have s: "find_col (columns (load_data parse_example scenario_raw)) [''state''] = Some ''State''"
    and d: "find_col (columns (load_data parse_example scenario_raw)) [''dpd''] = Some ''DPD Bucket''"
    by (simp_all add: load_scenario lower_State lower_headers lower_more)
  have "run_steps [filter_connect ''Connected'', filter_text shw_example ''DPD Bucket'' ''0-30'',
      filter_text shw_example ''State'' ''MH''] (load_data parse_example scenario_raw) =
    apply_filters shw_example (load_data parse_example scenario_raw) ''State'' ''DPD Bucket''
     ''MH'' ''0-30'' ''Connected''"
    by (rule filters_commute[OF refl s d refl refl refl]) simp
  then show ?thesis
    by (simp only: apply_scenario_Connected)
qed

section \<open>Claims on the KPI helpers\<close>




text \<open>
  C10: when the filtered table of a loaded table has no rows, the five totals and the
  three crore values are all 0, and none of the helper calls raises.
\<close>

theorem empty_filtered_set_kpis_zero:
  assumes "apply_filters shw (load_data parse raw) state_col dpd_col state dpd connect_filter = Inr F"
    and "rows F = []"
  shows "map_err (total F) total_cols = Inr [0, 0, 0, 0, 0] \<and>
         map_err (crore F) crore_cols = Inr [0, 0, 0]"
  using assms(2) by (simp add: total_cols_def crore_cols_def total_empty crore_empty)

text \<open>
  The claim C10 at work: no row of the scenario table has the region GJ.
\<close>

theorem empty_filtered_set_kpis_zero_witness:
  "map_err (total ((load_data parse_example scenario_raw)\<lparr>rows := []\<rparr>)) total_cols =
     Inr [0, 0, 0, 0, 0] \<and>
   map_err (crore ((load_data parse_example scenario_raw)\<lparr>rows := []\<rparr>)) crore_cols =
     Inr [0, 0, 0]"
  by (rule empty_filtered_set_kpis_zero[OF apply_scenario_GJ]) simp

section \<open>Claims on missing columns\<close>

text \<open>
  C2: when an optional numeric column is absent the run should go on, with zero for every
  KPI and aggregate that draws on it. The helpers \<open>total\<close> and \<open>crore\<close> do so, but the
  connect filter and the two aggregates index the column without the guard: on a table
  without Connect the selection Connected ends the run with KeyError, although
  \<open>total\<close> of Connect is 0 there; on a table without Collection Amount the run ends with
  KeyError in the region aggregate, although \<open>crore\<close> of Collection Amount is 0 there.
\<close>

theorem missing_column_raises:
  "run_dashboard parse_example shw_example no_connect_raw ''All'' ''All'' ''Connected'' =
     Inl (KeyError ''Connect'') \<and>
   total (load_data parse_example no_connect_raw) ''Connect'' = Inr 0 \<and>
   run_dashboard parse_example shw_example no_amounts_raw ''All'' ''All'' ''All'' =
     Inl (KeyError ''Collection Amount'') \<and>
   crore (load_data parse_example no_amounts_raw) ''Collection Amount'' = Inr 0"
  apply (simp add: run_dashboard_def load_no_connect load_no_amounts)
  apply (simp add: no_connect_raw_def no_amounts_raw_def find_scenario apply_filters_def filter_text_def
     filter_connect_def getitem_def total_def crore_def total_cols_def crore_cols_def state_summary_def
     cell_of_def py_int_def lower_State lower_headers lower_more)
  done

end
